theory Spec2Isabelle
  imports Main "HOL-Library.Word"
begin

unbundle bit_operations_syntax

section \<open>Values and errors\<close>

type_synonym byte = "8 word"

text \<open>
  A Go \<^verbatim>\<open>interface{}\<close> value as the codec sees it: a \<^verbatim>\<open>[]byte\<close>, a \<^verbatim>\<open>string\<close>
  (a sequence of bytes, here a \<^typ>\<open>char list\<close>), or a value of any other dynamic type.
\<close>

datatype val = Bytes "byte list" | Str string | Other

text \<open>
  Errors are values. \<open>New msg\<close> is \<^verbatim>\<open>errors.New(msg)\<close>, \<open>Wrap e msg\<close> is
  \<^verbatim>\<open>errors.Wrap(e, msg)\<close>; the next three are the errors of \<^verbatim>\<open>encoding/hex\<close> and
  \<^verbatim>\<open>encoding/base64\<close>; \<open>SyntaxError\<close> and \<open>RangeError\<close> are those of \<^verbatim>\<open>strconv\<close>;
  \<open>LibError\<close> is an error returned by a cryptographic primitive or by the ASN.1 codec;
  \<open>TypeAssertionPanic\<close> is the run-time panic of a failed unchecked type assertion
  \<^verbatim>\<open>x.(T)\<close>.
\<close>

datatype error =
    New string
  | Wrap error string
  | InvalidByteError char
  | ErrLength
  | CorruptInputError nat
  | SyntaxError
  | RangeError
  | LibError string
  | TypeAssertionPanic

text \<open>The error kinds of the specification, as the messages the code builds.\<close>

definition UnsupportedEncoding :: "string \<Rightarrow> error" where
  "UnsupportedEncoding format = New (''unsupported binary encoding: '' @ format)"

definition UnrecognizedEncoding :: error where
  "UnrecognizedEncoding = New ''unrecognized binary encoding''"

section \<open>encoding/hex\<close>

definition hextable :: string where
  "hextable = ''0123456789abcdef''"

definition fromHexChar :: "char \<Rightarrow> byte option" where
  "fromHexChar c =
     (let n = (of_char c :: nat) in
      if 48 \<le> n \<and> n \<le> 57 then Some (of_nat (n - 48))
      else if 97 \<le> n \<and> n \<le> 102 then Some (of_nat (n - 97 + 10))
      else if 65 \<le> n \<and> n \<le> 70 then Some (of_nat (n - 65 + 10))
      else None)"

fun hex_EncodeToString :: "byte list \<Rightarrow> string" where
  "hex_EncodeToString [] = []"
| "hex_EncodeToString (v # src) =
     hextable ! unat (drop_bit 4 v) # hextable ! unat (v AND 0x0f) # hex_EncodeToString src"

text \<open>
  \<^verbatim>\<open>hex.DecodeString\<close>: two characters a byte; the first character that is no hex digit
  gives \<open>InvalidByteError\<close>, an odd length whose last character is a hex digit gives
  \<open>ErrLength\<close>.
\<close>

fun hex_DecodeString :: "string \<Rightarrow> error + byte list" where
  "hex_DecodeString [] = Inr []"
| "hex_DecodeString [p] =
     (case fromHexChar p of None \<Rightarrow> Inl (InvalidByteError p) | Some a \<Rightarrow> Inl ErrLength)"
| "hex_DecodeString (p # q # src) =
     (case fromHexChar p of
        None \<Rightarrow> Inl (InvalidByteError p)
      | Some a \<Rightarrow>
          (case fromHexChar q of
             None \<Rightarrow> Inl (InvalidByteError q)
           | Some b \<Rightarrow>
               (case hex_DecodeString src of
                  Inl e \<Rightarrow> Inl e
                | Inr dst \<Rightarrow> Inr ((push_bit 4 a OR b) # dst))))"

section \<open>encoding/base64, StdEncoding\<close>

definition encodeStd :: string where
  "encodeStd = ''ABCDEFGHIJKLMNOPQRSTUVWXYZabcdefghijklmnopqrstuvwxyz0123456789+/''"

definition padChar :: char where
  "padChar = CHR ''=''"

definition isNewline :: "char \<Rightarrow> bool" where
  "isNewline c \<longleftrightarrow> c = CHR 0x0A \<or> c = CHR 0x0D"

fun position :: "char \<Rightarrow> string \<Rightarrow> nat \<Rightarrow> nat option" where
  "position c [] i = None"
| "position c (x # xs) i = (if c = x then Some i else position c xs (Suc i))"

text \<open>The decode map: the index of a character in the alphabet, if it has one.\<close>

definition decodeMap :: "char \<Rightarrow> byte option" where
  "decodeMap c = map_option of_nat (position c encodeStd 0)"

text \<open>One character of the alphabet for a 6-bit value of the accumulator.\<close>

definition encodeChar :: "64 word \<Rightarrow> char" where
  "encodeChar s = encodeStd ! unat s"

text \<open>\<^verbatim>\<open>val := uint(src[0])<<16 | uint(src[1])<<8 | uint(src[2])\<close>\<close>

definition pack3 :: "byte \<Rightarrow> byte \<Rightarrow> byte \<Rightarrow> 64 word" where
  "pack3 a b c = push_bit 16 (ucast a) OR push_bit 8 (ucast b) OR ucast c"

fun base64_EncodeToString :: "byte list \<Rightarrow> string" where
  "base64_EncodeToString [] = []"
| "base64_EncodeToString [a] =
     (let val = pack3 a 0 0 in
      [encodeChar (drop_bit 18 val AND 0x3F), encodeChar (drop_bit 12 val AND 0x3F),
       padChar, padChar])"
| "base64_EncodeToString [a, b] =
     (let val = pack3 a b 0 in
      [encodeChar (drop_bit 18 val AND 0x3F), encodeChar (drop_bit 12 val AND 0x3F),
       encodeChar (drop_bit 6 val AND 0x3F), padChar])"
| "base64_EncodeToString (a # b # c # src) =
     (let val = pack3 a b c in
      encodeChar (drop_bit 18 val AND 0x3F) # encodeChar (drop_bit 12 val AND 0x3F) #
      encodeChar (drop_bit 6 val AND 0x3F) # encodeChar (val AND 0x3F) #
      base64_EncodeToString src)"

text \<open>
  \<^verbatim>\<open>val := uint(dbuf[0])<<18 | uint(dbuf[1])<<12 | uint(dbuf[2])<<6 | uint(dbuf[3])\<close>
\<close>

definition assemble4 :: "byte \<Rightarrow> byte \<Rightarrow> byte \<Rightarrow> byte \<Rightarrow> 64 word" where
  "assemble4 d0 d1 d2 d3 =
     push_bit 18 (ucast d0) OR push_bit 12 (ucast d1) OR push_bit 6 (ucast d2) OR ucast d3"

text \<open>
  The end of \<^verbatim>\<open>decodeQuantum\<close>: the 6-bit values read so far (\<open>dlen\<close> of them, the rest of
  the buffer zero) are put together and \<open>dlen - 1\<close> bytes come out.
\<close>

definition quantumBytes :: "byte list \<Rightarrow> byte list" where
  "quantumBytes dbuf =
     (let d = dbuf @ replicate (4 - length dbuf) 0;
          val = assemble4 (d ! 0) (d ! 1) (d ! 2) (d ! 3)
      in take (length dbuf - 1)
           [ucast (drop_bit 16 val), ucast (drop_bit 8 val), ucast val])"

fun skipNewlines :: "nat \<Rightarrow> string \<Rightarrow> nat \<times> string" where
  "skipNewlines si [] = (si, [])"
| "skipNewlines si (c # cs) =
     (if isNewline c then skipNewlines (Suc si) cs else (si, c # cs))"

text \<open>After the padding of the last quantum: only newlines may follow.\<close>

definition afterPadding :: "nat \<Rightarrow> byte list \<Rightarrow> string \<Rightarrow> error + byte list" where
  "afterPadding si dbuf src =
     (case skipNewlines si src of
        (si', []) \<Rightarrow> Inr (quantumBytes dbuf)
      | (si', c # cs) \<Rightarrow> Inl (CorruptInputError si'))"

text \<open>
  \<^verbatim>\<open>Decode\<close> with its calls of \<^verbatim>\<open>decodeQuantum\<close> written as one recursion over the
  input: \<open>si\<close> is the index of the next character, \<open>dbuf\<close> holds the values of the quantum
  being read. Carriage returns and line feeds are skipped, the encoding is padded and not
  strict. The fast paths of the library decode whole groups of valid characters to the
  same bytes.
\<close>

fun base64_Decode :: "nat \<Rightarrow> byte list \<Rightarrow> string \<Rightarrow> error + byte list" where
  "base64_Decode si dbuf [] =
     (if dbuf = [] then Inr [] else Inl (CorruptInputError (si - length dbuf)))"
| "base64_Decode si dbuf (c # src) =
     (case decodeMap c of
        Some out \<Rightarrow>
          (if length dbuf = 3
           then (case base64_Decode (Suc si) [] src of
                   Inl e \<Rightarrow> Inl e
                 | Inr dst \<Rightarrow> Inr (quantumBytes (dbuf @ [out]) @ dst))
           else base64_Decode (Suc si) (dbuf @ [out]) src)
      | None \<Rightarrow>
          (if isNewline c then base64_Decode (Suc si) dbuf src
           else if c \<noteq> padChar then Inl (CorruptInputError si)
           else if length dbuf < 2 then Inl (CorruptInputError si)
           else if length dbuf = 2 then
             (case skipNewlines (Suc si) src of
                (si', []) \<Rightarrow> Inl (CorruptInputError si')
              | (si', p # rest) \<Rightarrow>
                  (if p \<noteq> padChar then Inl (CorruptInputError (si' - 1))
                   else afterPadding (Suc si') dbuf rest))
           else afterPadding (Suc si) dbuf src))"

definition base64_DecodeString :: "string \<Rightarrow> error + byte list" where
  "base64_DecodeString s = base64_Decode 0 [] s"

section \<open>The binary codec (code.go)\<close>

definition decodeBytes :: "val \<Rightarrow> error + byte list" where
  "decodeBytes abstracted =
     (case abstracted of
        Bytes decoded \<Rightarrow> Inr decoded
      | _ \<Rightarrow> Inl (New ''not a byte array''))"

definition decodeHex :: "val \<Rightarrow> error + byte list" where
  "decodeHex abstracted =
     (case abstracted of
        Str encoded \<Rightarrow> hex_DecodeString encoded
      | _ \<Rightarrow> Inl (New ''not a hex string''))"

definition decodeBase64 :: "val \<Rightarrow> error + byte list" where
  "decodeBase64 abstracted =
     (case abstracted of
        Str encoded \<Rightarrow> base64_DecodeString encoded
      | _ \<Rightarrow> Inl (New ''not a base64 string''))"

definition decodeBinaryKnown :: "val \<Rightarrow> string \<Rightarrow> error + byte list" where
  "decodeBinaryKnown encoded format =
     (if format = ''binary'' then decodeBytes encoded
      else if format = ''hex'' then decodeHex encoded
      else if format = ''base64'' then decodeBase64 encoded
      else Inl (UnsupportedEncoding format))"

definition decodeBinaryDetect :: "val \<Rightarrow> error + byte list" where
  "decodeBinaryDetect encoded =
     (case decodeBytes encoded of
        Inr decoded \<Rightarrow> Inr decoded
      | Inl _ \<Rightarrow>
          (case decodeHex encoded of
             Inr decoded \<Rightarrow> Inr decoded
           | Inl _ \<Rightarrow>
               (case decodeBase64 encoded of
                  Inr decoded \<Rightarrow> Inr decoded
                | Inl _ \<Rightarrow> Inl UnrecognizedEncoding)))"

definition decodeBinary :: "val \<Rightarrow> string \<Rightarrow> error + byte list" where
  "decodeBinary encoded format =
     (if format \<noteq> [] then decodeBinaryKnown encoded format
      else decodeBinaryDetect encoded)"

definition encodeBinary :: "byte list \<Rightarrow> string \<Rightarrow> error + val" where
  "encodeBinary value format =
     (if format = [] \<or> format = ''binary'' then Inr (Bytes value)
      else if format = ''hex'' then Inr (Str (hex_EncodeToString value))
      else if format = ''base64'' then Inr (Str (base64_EncodeToString value))
      else Inl (UnsupportedEncoding format))"

section \<open>strconv.ParseInt, base 10, 64 bits\<close>

definition isDigit :: "char \<Rightarrow> bool" where
  "isDigit c \<longleftrightarrow> 48 \<le> (of_char c :: nat) \<and> (of_char c :: nat) \<le> 57"

definition digitVal :: "char \<Rightarrow> nat" where
  "digitVal c = of_char c - 48"

definition maxUint64 :: nat where
  "maxUint64 = 2 ^ 64 - 1"

text \<open>
  The loop of \<^verbatim>\<open>ParseUint\<close>, the 64-bit accumulator as a natural number with the two
  overflow tests written out: \<open>n \<ge> maxUint64 / 10 + 1\<close> before the multiplication and
  \<open>n * 10 + d > maxUint64\<close> after the addition.
\<close>

fun ParseUint_loop :: "nat \<Rightarrow> string \<Rightarrow> error + nat" where
  "ParseUint_loop n [] = Inr n"
| "ParseUint_loop n (c # s) =
     (if \<not> isDigit c then Inl SyntaxError
      else if n \<ge> maxUint64 div 10 + 1 then Inl RangeError
      else if n * 10 + digitVal c > maxUint64 then Inl RangeError
      else ParseUint_loop (n * 10 + digitVal c) s)"

definition ParseUint :: "string \<Rightarrow> error + nat" where
  "ParseUint s = (if s = [] then Inl SyntaxError else ParseUint_loop 0 s)"

definition ParseInt :: "string \<Rightarrow> error + int" where
  "ParseInt s =
     (case s of
        [] \<Rightarrow> Inl SyntaxError
      | c # s' \<Rightarrow>
          (let neg = (c = CHR ''-'');
               digits = (if c = CHR ''+'' \<or> c = CHR ''-'' then s' else s)
           in case ParseUint digits of
                Inl err \<Rightarrow> Inl err
              | Inr un \<Rightarrow>
                  if \<not> neg \<and> un \<ge> 2 ^ 63 then Inl RangeError
                  else if neg \<and> un > 2 ^ 63 then Inl RangeError
                  else Inr (if neg then - int un else int un)))"

section \<open>Keys, options and the cryptographic primitives\<close>

text \<open>\<^verbatim>\<open>type SigningOptions map[string]string\<close>; reading a missing key gives \<^verbatim>\<open>""\<close>.\<close>

type_synonym SigningOptions = "string \<rightharpoonup> string"

definition index :: "SigningOptions \<Rightarrow> string \<Rightarrow> string" where
  "index options k = (case options k of None \<Rightarrow> [] | Some v \<Rightarrow> v)"

type_synonym Hash = nat

record PSSOptions =
  SaltLength :: int
  Hash :: Hash

datatype rsa_PublicKey = RsaPublicKey int int
datatype rsa_PrivateKey = RsaPrivateKey rsa_PublicKey int "int list"
datatype dsa_PublicKey = DsaPublicKey int int int int
datatype dsa_PrivateKey = DsaPrivateKey dsa_PublicKey int
datatype ecdsa_PublicKey = EcdsaPublicKey string int int
datatype ecdsa_PrivateKey = EcdsaPrivateKey ecdsa_PublicKey int

text \<open>
  The \<^verbatim>\<open>Key interface{}\<close> field of a parsed key: a pointer to one of the six key
  structures of the Go library, or a value of another dynamic type.
\<close>

datatype key =
    RSAPublic rsa_PublicKey
  | RSAPrivate rsa_PrivateKey
  | DSAPublic dsa_PublicKey
  | DSAPrivate dsa_PrivateKey
  | ECDSAPublic ecdsa_PublicKey
  | ECDSAPrivate ecdsa_PrivateKey
  | OtherKey

text \<open>
  Modelled from the spec: the declarations of \<^verbatim>\<open>x509.PublicKey\<close> and
  \<^verbatim>\<open>x509.PrivateKey\<close> are in the package \<^verbatim>\<open>x509\<close>, which is not among the sources. A
  key is a tagged value; the engine reads its fields \<^verbatim>\<open>Algorithm\<close> (a string) and
  \<^verbatim>\<open>Key\<close> (an \<^verbatim>\<open>interface{}\<close>). The six key structures above are those of the Go
  library, with the contents the specification lists.
\<close>

record PublicKey =
  Algorithm :: string
  Key :: key

record PrivateKey =
  Algorithm :: string
  Key :: key

text \<open>The bytes a signing primitive draws from \<^verbatim>\<open>rand.Reader\<close>.\<close>

type_synonym Reader = "byte list"

text \<open>
  The functions the signature engine calls and does not define: the primitives of
  \<^verbatim>\<open>crypto/rsa\<close>, \<^verbatim>\<open>crypto/dsa\<close> and \<^verbatim>\<open>crypto/ecdsa\<close>, the ASN.1 codec for a pair
  \<open>(R, S)\<close>, and the digest functions of the package, whose file is not among the
  sources (\<^verbatim>\<open>decodeFunction\<close> resolves a digest name, \<open>hasher_Digest name plaintext\<close> is
  \<^verbatim>\<open>makeHasher(ctx, name)\<close>, \<^verbatim>\<open>Update(plaintext)\<close>, \<^verbatim>\<open>Digest("binary")\<close>, which throws or
  returns a value). They are parameters of the model.
\<close>

record crypto =
  rsa_SignPKCS1v15 :: "Reader \<Rightarrow> rsa_PrivateKey \<Rightarrow> Hash \<Rightarrow> byte list \<Rightarrow> error + byte list"
  rsa_VerifyPKCS1v15 :: "rsa_PublicKey \<Rightarrow> Hash \<Rightarrow> byte list \<Rightarrow> byte list \<Rightarrow> error option"
  rsa_SignPSS ::
    "Reader \<Rightarrow> rsa_PrivateKey \<Rightarrow> Hash \<Rightarrow> byte list \<Rightarrow> PSSOptions \<Rightarrow> error + byte list"
  rsa_VerifyPSS ::
    "rsa_PublicKey \<Rightarrow> Hash \<Rightarrow> byte list \<Rightarrow> byte list \<Rightarrow> PSSOptions \<Rightarrow> error option"
  dsa_Sign :: "Reader \<Rightarrow> dsa_PrivateKey \<Rightarrow> byte list \<Rightarrow> error + int \<times> int"
  dsa_Verify :: "dsa_PublicKey \<Rightarrow> byte list \<Rightarrow> int \<Rightarrow> int \<Rightarrow> bool"
  ecdsa_Sign :: "Reader \<Rightarrow> ecdsa_PrivateKey \<Rightarrow> byte list \<Rightarrow> error + int \<times> int"
  ecdsa_Verify :: "ecdsa_PublicKey \<Rightarrow> byte list \<Rightarrow> int \<Rightarrow> int \<Rightarrow> bool"
  asn1_Marshal :: "int \<times> int \<Rightarrow> error + byte list"
  asn1_Unmarshal :: "byte list \<Rightarrow> error + int \<times> int"
  decodeFunction :: "string \<Rightarrow> error + Hash"
  hasher_Digest :: "string \<Rightarrow> byte list \<Rightarrow> error + val"

section \<open>The signature engine\<close>

text \<open>\<^verbatim>\<open>int(decoded)\<close> on a platform whose \<^verbatim>\<open>int\<close> has 64 bits.\<close>

definition decodeInt :: "string \<Rightarrow> int" where
  "decodeInt encoded = (case ParseInt encoded of Inl err \<Rightarrow> 0 | Inr decoded \<Rightarrow> decoded)"

definition decodePssOptions :: "SigningOptions \<Rightarrow> PSSOptions" where
  "decodePssOptions options =
     \<lparr>SaltLength = decodeInt (index options ''saltLength''), Hash = 0\<rparr>"

definition hashPlaintext :: "crypto \<Rightarrow> string \<Rightarrow> byte list \<Rightarrow> error + byte list" where
  "hashPlaintext lib function plaintext =
     (case hasher_Digest lib function plaintext of
        Inl err \<Rightarrow> Inl err
      | Inr (Bytes digest) \<Rightarrow> Inr digest
      | Inr _ \<Rightarrow> Inl (New ''could not hash data: invalid return value''))"

definition decodeSignature :: "val \<Rightarrow> error + byte list" where
  "decodeSignature encoded =
     (case decodeBinaryDetect encoded of
        Inl err \<Rightarrow> Inl (Wrap err ''could not decode signature'')
      | Inr decoded \<Rightarrow> Inr decoded)"

definition decodePlaintext :: "val \<Rightarrow> error + byte list" where
  "decodePlaintext encoded =
     (case decodeBinaryDetect encoded of
        Inl err \<Rightarrow> Inl (Wrap err ''could not decode data'')
      | Inr decoded \<Rightarrow> Inr decoded)"

definition validatePublicKey :: "PublicKey \<Rightarrow> error option" where
  "validatePublicKey k =
     (if PublicKey.Algorithm k = ''DSA'' then
        (case PublicKey.Key k of DSAPublic _ \<Rightarrow> None
         | _ \<Rightarrow> Some (New ''invalid DSA public key''))
      else if PublicKey.Algorithm k = ''ECDSA'' then
        (case PublicKey.Key k of ECDSAPublic _ \<Rightarrow> None
         | _ \<Rightarrow> Some (New ''invalid ECDSA public key''))
      else if PublicKey.Algorithm k = ''RSA'' then
        (case PublicKey.Key k of RSAPublic _ \<Rightarrow> None
         | _ \<Rightarrow> Some (New ''invalid DSA public key''))
      else Some (New ''invalid public key''))"

definition validatePrivateKey :: "PrivateKey \<Rightarrow> error option" where
  "validatePrivateKey k =
     (if PrivateKey.Algorithm k = ''DSA'' then
        (case PrivateKey.Key k of DSAPrivate _ \<Rightarrow> None
         | _ \<Rightarrow> Some (New ''invalid DSA private key''))
      else if PrivateKey.Algorithm k = ''ECDSA'' then
        (case PrivateKey.Key k of ECDSAPrivate _ \<Rightarrow> None
         | _ \<Rightarrow> Some (New ''invalid ECDSA private key''))
      else if PrivateKey.Algorithm k = ''RSA'' then
        (case PrivateKey.Key k of RSAPrivate _ \<Rightarrow> None
         | _ \<Rightarrow> Some (New ''invalid RSA private key''))
      else Some (New ''invalid private key''))"

subsection \<open>Verification\<close>

definition verifyPKCS :: "crypto \<Rightarrow> rsa_PublicKey \<Rightarrow> Hash \<Rightarrow> byte list \<Rightarrow> byte list \<Rightarrow> bool" where
  "verifyPKCS lib signer function digest signature =
     (case rsa_VerifyPKCS1v15 lib signer function digest signature of
        Some err \<Rightarrow> False
      | None \<Rightarrow> True)"

definition verifyPSS ::
  "crypto \<Rightarrow> rsa_PublicKey \<Rightarrow> Hash \<Rightarrow> byte list \<Rightarrow> byte list \<Rightarrow> SigningOptions \<Rightarrow> bool" where
  "verifyPSS lib signer function digest signature options =
     (let config = decodePssOptions options in
      case rsa_VerifyPSS lib signer function digest signature config of
        Some err \<Rightarrow> False
      | None \<Rightarrow> True)"

definition verifyRSA ::
  "crypto \<Rightarrow> rsa_PublicKey \<Rightarrow> Hash \<Rightarrow> byte list \<Rightarrow> byte list \<Rightarrow> SigningOptions
   \<Rightarrow> error + bool" where
  "verifyRSA lib signer function digest signature options =
     (if index options ''type'' = [] then Inr (verifyPKCS lib signer function digest signature)
      else if index options ''type'' = ''pss''
      then Inr (verifyPSS lib signer function digest signature options)
      else Inl (New (''unsupported type: '' @ index options ''type'')))"

definition verifyDSA :: "crypto \<Rightarrow> dsa_PublicKey \<Rightarrow> byte list \<Rightarrow> byte list \<Rightarrow> error + bool" where
  "verifyDSA lib signer digest signatureDer =
     (case asn1_Unmarshal lib signatureDer of
        Inl err \<Rightarrow> Inl err
      | Inr (r, s) \<Rightarrow> Inr (dsa_Verify lib signer digest r s))"

definition verifyECDSA ::
  "crypto \<Rightarrow> ecdsa_PublicKey \<Rightarrow> byte list \<Rightarrow> byte list \<Rightarrow> error + bool" where
  "verifyECDSA lib signer digest signatureDer =
     (case asn1_Unmarshal lib signatureDer of
        Inl err \<Rightarrow> Inl err
      | Inr (r, s) \<Rightarrow> Inr (ecdsa_Verify lib signer digest r s))"

text \<open>
  The three type assertions \<^verbatim>\<open>signer.Key.(*dsa.PublicKey)\<close> and so on are unchecked: on a
  key of another dynamic type they panic.
\<close>

definition executeVerify ::
  "crypto \<Rightarrow> PublicKey \<Rightarrow> Hash \<Rightarrow> byte list \<Rightarrow> byte list \<Rightarrow> SigningOptions
   \<Rightarrow> error + bool" where
  "executeVerify lib signer function digest signature options =
     (if PublicKey.Algorithm signer = ''DSA'' then
        (case PublicKey.Key signer of
           DSAPublic k \<Rightarrow> verifyDSA lib k digest signature
         | _ \<Rightarrow> Inl TypeAssertionPanic)
      else if PublicKey.Algorithm signer = ''ECDSA'' then
        (case PublicKey.Key signer of
           ECDSAPublic k \<Rightarrow> verifyECDSA lib k digest signature
         | _ \<Rightarrow> Inl TypeAssertionPanic)
      else if PublicKey.Algorithm signer = ''RSA'' then
        (case PublicKey.Key signer of
           RSAPublic k \<Rightarrow> verifyRSA lib k function digest signature options
         | _ \<Rightarrow> Inl TypeAssertionPanic)
      else Inl (New ''invalid public key''))"

subsection \<open>Signing\<close>

definition signPKCS ::
  "crypto \<Rightarrow> Reader \<Rightarrow> rsa_PrivateKey \<Rightarrow> Hash \<Rightarrow> byte list \<Rightarrow> error + byte list" where
  "signPKCS lib rnd signer function digest =
     (case rsa_SignPKCS1v15 lib rnd signer function digest of
        Inl err \<Rightarrow> Inl (Wrap err ''failed to sign message'')
      | Inr signature \<Rightarrow> Inr signature)"

definition signPSS ::
  "crypto \<Rightarrow> Reader \<Rightarrow> rsa_PrivateKey \<Rightarrow> Hash \<Rightarrow> byte list \<Rightarrow> SigningOptions
   \<Rightarrow> error + byte list" where
  "signPSS lib rnd signer function digest options =
     (let config = decodePssOptions options in
      case rsa_SignPSS lib rnd signer function digest config of
        Inl err \<Rightarrow> Inl (Wrap err ''failed to sign message'')
      | Inr signature \<Rightarrow> Inr signature)"

definition signRSA ::
  "crypto \<Rightarrow> Reader \<Rightarrow> rsa_PrivateKey \<Rightarrow> Hash \<Rightarrow> byte list \<Rightarrow> SigningOptions
   \<Rightarrow> error + byte list" where
  "signRSA lib rnd signer function digest options =
     (if index options ''type'' = [] then signPKCS lib rnd signer function digest
      else if index options ''type'' = ''pss''
      then signPSS lib rnd signer function digest options
      else Inl (New (''unsupported type: '' @ index options ''type'')))"

definition signDSA :: "crypto \<Rightarrow> Reader \<Rightarrow> dsa_PrivateKey \<Rightarrow> byte list \<Rightarrow> error + byte list" where
  "signDSA lib rnd signer digest =
     (case dsa_Sign lib rnd signer digest of
        Inl err \<Rightarrow> Inl err
      | Inr (r, s) \<Rightarrow> asn1_Marshal lib (r, s))"

definition signECDSA ::
  "crypto \<Rightarrow> Reader \<Rightarrow> ecdsa_PrivateKey \<Rightarrow> byte list \<Rightarrow> error + byte list" where
  "signECDSA lib rnd signer digest =
     (case ecdsa_Sign lib rnd signer digest of
        Inl err \<Rightarrow> Inl err
      | Inr (r, s) \<Rightarrow> asn1_Marshal lib (r, s))"

definition executeSign ::
  "crypto \<Rightarrow> Reader \<Rightarrow> PrivateKey \<Rightarrow> Hash \<Rightarrow> byte list \<Rightarrow> string \<Rightarrow> SigningOptions
   \<Rightarrow> error + val" where
  "executeSign lib rnd signer function digest format options =
     (case
        (if PrivateKey.Algorithm signer = ''DSA'' then
           (case PrivateKey.Key signer of
              DSAPrivate k \<Rightarrow> signDSA lib rnd k digest
            | _ \<Rightarrow> Inl TypeAssertionPanic)
         else if PrivateKey.Algorithm signer = ''ECDSA'' then
           (case PrivateKey.Key signer of
              ECDSAPrivate k \<Rightarrow> signECDSA lib rnd k digest
            | _ \<Rightarrow> Inl TypeAssertionPanic)
         else if PrivateKey.Algorithm signer = ''RSA'' then
           (case PrivateKey.Key signer of
              RSAPrivate k \<Rightarrow> signRSA lib rnd k function digest options
            | _ \<Rightarrow> Inl TypeAssertionPanic)
         else Inl (New ''invalid private key''))
      of
        Inl err \<Rightarrow> Inl err
      | Inr signature \<Rightarrow> encodeBinary signature format)"

subsection \<open>The one-shot operations\<close>

text \<open>
  \<^verbatim>\<open>throw(ctx, err)\<close> ends the call with the error: a result \<open>Inl err\<close> of an operation of
  the public surface is the error thrown.
\<close>

definition prepareVerify ::
  "crypto \<Rightarrow> PublicKey \<Rightarrow> string \<Rightarrow> val \<Rightarrow> val \<Rightarrow> error + Hash \<times> byte list \<times> byte list" where
  "prepareVerify lib signer functionEncoded plaintextEncoded signatureEncoded =
     (case validatePublicKey signer of
        Some err \<Rightarrow> Inl err
      | None \<Rightarrow>
     (case decodeFunction lib functionEncoded of
        Inl err \<Rightarrow> Inl err
      | Inr function \<Rightarrow>
     (case decodePlaintext plaintextEncoded of
        Inl err \<Rightarrow> Inl err
      | Inr plaintext \<Rightarrow>
     (case hashPlaintext lib functionEncoded plaintext of
        Inl err \<Rightarrow> Inl err
      | Inr digest \<Rightarrow>
     (case decodeSignature signatureEncoded of
        Inl err \<Rightarrow> Inl err
      | Inr signature \<Rightarrow> Inr (function, digest, signature))))))"

definition Verify ::
  "crypto \<Rightarrow> PublicKey \<Rightarrow> string \<Rightarrow> val \<Rightarrow> val \<Rightarrow> SigningOptions \<Rightarrow> error + bool" where
  "Verify lib signer functionEncoded plaintextEncoded signatureEncoded options =
     (case prepareVerify lib signer functionEncoded plaintextEncoded signatureEncoded of
        Inl err \<Rightarrow> Inl err
      | Inr (function, digest, signature) \<Rightarrow>
          executeVerify lib signer function digest signature options)"

definition prepareSign ::
  "crypto \<Rightarrow> PrivateKey \<Rightarrow> string \<Rightarrow> val \<Rightarrow> error + Hash \<times> byte list" where
  "prepareSign lib signer functionEncoded plaintextEncoded =
     (case validatePrivateKey signer of
        Some err \<Rightarrow> Inl err
      | None \<Rightarrow>
     (case decodeFunction lib functionEncoded of
        Inl err \<Rightarrow> Inl err
      | Inr function \<Rightarrow>
     (case decodePlaintext plaintextEncoded of
        Inl err \<Rightarrow> Inl err
      | Inr plaintext \<Rightarrow>
     (case hashPlaintext lib functionEncoded plaintext of
        Inl err \<Rightarrow> Inl err
      | Inr digest \<Rightarrow> Inr (function, digest)))))"

definition Sign ::
  "crypto \<Rightarrow> Reader \<Rightarrow> PrivateKey \<Rightarrow> string \<Rightarrow> val \<Rightarrow> string \<Rightarrow> SigningOptions
   \<Rightarrow> error + val" where
  "Sign lib rnd signer functionEncoded plaintextEncoded format options =
     (case prepareSign lib signer functionEncoded plaintextEncoded of
        Inl err \<Rightarrow> Inl err
      | Inr (function, digest) \<Rightarrow>
          executeSign lib rnd signer function digest format options)"

section \<open>The incremental signer and verifier\<close>

text \<open>
  The two contexts, without the pointer to the run-time context, which only \<^verbatim>\<open>throw\<close>
  and the hasher read. Each field carries the name of its structure.
\<close>

record Verifier =
  verifier_function :: Hash
  verifier_functionEncoded :: string
  verifier_options :: SigningOptions
  verifier_plaintext :: "byte list"

record Signer =
  signer_function :: Hash
  signer_functionEncoded :: string
  signer_options :: SigningOptions
  signer_plaintext :: "byte list"

definition CreateVerify :: "crypto \<Rightarrow> string \<Rightarrow> SigningOptions \<Rightarrow> error + Verifier" where
  "CreateVerify lib functionEncoded options =
     (case decodeFunction lib functionEncoded of
        Inl err \<Rightarrow> Inl err
      | Inr function \<Rightarrow>
          Inr \<lparr>verifier_function = function, verifier_functionEncoded = functionEncoded,
               verifier_options = options, verifier_plaintext = []\<rparr>)"

definition CreateSign :: "crypto \<Rightarrow> string \<Rightarrow> SigningOptions \<Rightarrow> error + Signer" where
  "CreateSign lib functionEncoded options =
     (case decodeFunction lib functionEncoded of
        Inl err \<Rightarrow> Inl err
      | Inr function \<Rightarrow>
          Inr \<lparr>signer_function = function, signer_functionEncoded = functionEncoded,
               signer_options = options, signer_plaintext = []\<rparr>)"

text \<open>
  A method of a context returns its result, or the error thrown, and the context as the
  call leaves it.
\<close>

definition Verifier_Update :: "Verifier \<Rightarrow> val \<Rightarrow> string \<Rightarrow> error option \<times> Verifier" where
  "Verifier_Update verifier additionEncoded format =
     (case decodeBinary additionEncoded format of
        Inl err \<Rightarrow> (Some err, verifier)
      | Inr addition \<Rightarrow>
          (None, verifier\<lparr>verifier_plaintext := verifier_plaintext verifier @ addition\<rparr>))"

definition Verifier_Verify ::
  "crypto \<Rightarrow> Verifier \<Rightarrow> PublicKey \<Rightarrow> val \<Rightarrow> (error + bool) \<times> Verifier" where
  "Verifier_Verify lib verifier signer signatureEncoded =
     (case decodeSignature signatureEncoded of
        Inl err \<Rightarrow> (Inl err, verifier)
      | Inr signature \<Rightarrow>
     (case hashPlaintext lib (verifier_functionEncoded verifier) (verifier_plaintext verifier) of
        Inl err \<Rightarrow> (Inl err, verifier)
      | Inr digest \<Rightarrow>
          (executeVerify lib signer (verifier_function verifier) digest signature
             (verifier_options verifier),
           verifier)))"

definition Signer_Update :: "Signer \<Rightarrow> val \<Rightarrow> string \<Rightarrow> error option \<times> Signer" where
  "Signer_Update signer additionEncoded format =
     (case decodeBinary additionEncoded format of
        Inl err \<Rightarrow> (Some err, signer)
      | Inr addition \<Rightarrow>
          (None, signer\<lparr>signer_plaintext := signer_plaintext signer @ addition\<rparr>))"

definition Signer_Sign ::
  "crypto \<Rightarrow> Reader \<Rightarrow> Signer \<Rightarrow> PrivateKey \<Rightarrow> string \<Rightarrow> (error + val) \<times> Signer" where
  "Signer_Sign lib rnd signer k format =
     (case hashPlaintext lib (signer_functionEncoded signer) (signer_plaintext signer) of
        Inl err \<Rightarrow> (Inl err, signer)
      | Inr digest \<Rightarrow>
          (executeSign lib rnd k (signer_function signer) digest format
             (signer_options signer),
           signer))"



section \<open>Notions of the specification\<close>

text \<open>The error of an RSA padding type that is not supported, as the code builds it.\<close>

definition UnsupportedPaddingScheme :: "string \<Rightarrow> error" where
  "UnsupportedPaddingScheme t = New (''unsupported type: '' @ t)"



section \<open>An instance of the primitives for concrete evaluation\<close>

text \<open>
  These stand-ins are not cryptography: a signature is the digest behind a tag byte, a
  pair \<open>(R, S)\<close> is encoded as two bytes. They let the engine be run on concrete inputs.
\<close>

definition sampleVerifyError :: error where
  "sampleVerifyError = LibError ''crypto/rsa: verification error''"

definition sampleUnmarshal :: "byte list \<Rightarrow> error + int \<times> int" where
  "sampleUnmarshal der =
     (case der of
        [r, s] \<Rightarrow> Inr (uint r, uint s)
      | _ \<Rightarrow> Inl (LibError ''asn1: syntax error''))"

definition sampleLib :: crypto where
  "sampleLib =
     \<lparr>rsa_SignPKCS1v15 = (\<lambda>rnd k h digest. Inr (1 # digest)),
      rsa_VerifyPKCS1v15 =
        (\<lambda>k h digest signature. if signature = 1 # digest then None else Some sampleVerifyError),
      rsa_SignPSS = (\<lambda>rnd k h digest config. Inr (2 # digest)),
      rsa_VerifyPSS =
        (\<lambda>k h digest signature config.
           if signature = 2 # digest then None else Some sampleVerifyError),
      dsa_Sign = (\<lambda>rnd k digest. Inr (int (length digest), 3)),
      dsa_Verify = (\<lambda>k digest r s. r = int (length digest) \<and> s = 3),
      ecdsa_Sign = (\<lambda>rnd k digest. Inr (int (length digest), 4)),
      ecdsa_Verify = (\<lambda>k digest r s. r = int (length digest) \<and> s = 4),
      asn1_Marshal = (\<lambda>(r, s). Inr [word_of_int r, word_of_int s]),
      asn1_Unmarshal = sampleUnmarshal,
      decodeFunction =
        (\<lambda>name. if name = ''sha256'' then Inr 5
                 else Inl (New (''unsupported hash function: '' @ name))),
      hasher_Digest = (\<lambda>name plaintext. Inr (Bytes (rev plaintext)))\<rparr>"

definition sampleRsaPublic :: rsa_PublicKey where
  "sampleRsaPublic = RsaPublicKey 3233 17"

definition sampleRsaPrivate :: rsa_PrivateKey where
  "sampleRsaPrivate = RsaPrivateKey sampleRsaPublic 2753 [61, 53]"

definition sampleDsaPublic :: dsa_PublicKey where
  "sampleDsaPublic = DsaPublicKey 23 11 4 8"

definition sampleSigner :: Signer where
  "sampleSigner =
     \<lparr>signer_function = 5, signer_functionEncoded = ''sha256'',
      signer_options = Map.empty, signer_plaintext = [1, 2]\<rparr>"

definition sampleVerifier :: Verifier where
  "sampleVerifier =
     \<lparr>verifier_function = 5, verifier_functionEncoded = ''sha256'',
      verifier_options = Map.empty, verifier_plaintext = [1, 2]\<rparr>"

definition sampleRsaKey :: PublicKey where
  "sampleRsaKey = \<lparr>PublicKey.Algorithm = ''RSA'', PublicKey.Key = RSAPublic sampleRsaPublic\<rparr>"

definition sampleDsaKey :: PublicKey where
  "sampleDsaKey = \<lparr>PublicKey.Algorithm = ''DSA'', PublicKey.Key = DSAPublic sampleDsaPublic\<rparr>"

definition mistypedPublicKey :: PublicKey where
  "mistypedPublicKey =
     \<lparr>PublicKey.Algorithm = ''RSA'', PublicKey.Key = DSAPublic sampleDsaPublic\<rparr>"

definition mistypedPrivateKey :: PrivateKey where
  "mistypedPrivateKey = \<lparr>PrivateKey.Algorithm = ''RSA'', PrivateKey.Key = OtherKey\<rparr>"

definition sampleRsaPrivateKey :: PrivateKey where
  "sampleRsaPrivateKey =
     \<lparr>PrivateKey.Algorithm = ''RSA'', PrivateKey.Key = RSAPrivate sampleRsaPrivate\<rparr>"

section \<open>Properties of the library models\<close>

subsection \<open>Hexadecimal\<close>

lemma fromHexChar_hextable_all:
  "\<forall>n \<in> set [0..<16]. fromHexChar (hextable ! n) = Some (of_nat n)"
  by code_simp

lemma fromHexChar_hextable: "n < 16 \<Longrightarrow> fromHexChar (hextable ! n) = Some (of_nat n)"
  using fromHexChar_hextable_all by simp

lemma mask4: "(0x0f::byte) = mask 4" 
  by (simp add: mask_eq_exp_minus_1)

lemma hi_nibble_less: "unat (drop_bit 4 (v::byte)) < 16"
proof -
  have "unat v < 2 ^ 8" using unsigned_less[of v] by simp
  then show ?thesis by (simp add: unat_drop_bit_eq drop_bit_eq_div unat_div)
qed

lemma lo_nibble_less: "unat ((v::byte) AND 0x0f) < 16"
proof -
  have "unat (v AND mask 4) = take_bit 4 (unat v)"
    by (simp add: unsigned_take_bit_eq flip: take_bit_eq_mask)
  then show ?thesis unfolding mask4 by (simp add: take_bit_eq_mod)
qed

lemma nibbles: "push_bit 4 (drop_bit 4 v) OR (v AND 0x0f) = (v::byte)"
  unfolding mask4
  by (rule bit_word_eqI) (auto simp: bit_simps)

lemma hex_roundtrip: "hex_DecodeString (hex_EncodeToString bs) = Inr bs"
  by (induction bs) (simp_all add: fromHexChar_hextable hi_nibble_less lo_nibble_less nibbles)

subsection \<open>Base64\<close>

lemma decodeMap_encodeStd_all:
  "\<forall>n \<in> set [0..<64]. decodeMap (encodeStd ! n) = Some (of_nat n)"
  by code_simp

lemma mask6: "(0x3F::64 word) = mask 6" 
  by (simp add: mask_eq_exp_minus_1)

lemma sextet_less: "unat ((x::64 word) AND 0x3F) < 64"
proof -
  have "unat (x AND mask 6) = take_bit 6 (unat x)"
    by (simp add: unsigned_take_bit_eq flip: take_bit_eq_mask)
  then show ?thesis unfolding mask6 by (simp add: take_bit_eq_mod)
qed

lemma decodeMap_encodeChar:
  "decodeMap (encodeChar (x AND 0x3F)) = Some (ucast (x AND 0x3F))"
  using decodeMap_encodeStd_all sextet_less[of x]
  by (simp add: encodeChar_def)

lemma bit_pack3: "bit (pack3 a b c) n \<Longrightarrow> n < 24"
  by (auto simp: pack3_def bit_simps dest: bit_imp_le_length)

lemma reassemble:
  fixes val :: "64 word"
  assumes "\<And>n. bit val n \<Longrightarrow> n < 24"
  shows "push_bit 18 (ucast (ucast (drop_bit 18 val AND 0x3F) :: byte)) OR
         push_bit 12 (ucast (ucast (drop_bit 12 val AND 0x3F) :: byte)) OR
         push_bit 6 (ucast (ucast (drop_bit 6 val AND 0x3F) :: byte)) OR
         ucast (ucast (val AND 0x3F) :: byte) = val"
  unfolding mask6
  apply (rule bit_word_eqI)
  subgoal for n
    using assms[of n]
    apply (cases "n < 6"; cases "n < 12"; cases "n < 18")
    apply (auto simp: bit_simps)
    done
  done

lemma unpack3:
  "ucast (drop_bit 16 (pack3 a b c)) = a"
  "ucast (drop_bit 8 (pack3 a b c)) = b"
  "ucast (pack3 a b c) = c"
  unfolding pack3_def
  by (rule bit_word_eqI; auto simp: bit_simps dest: bit_imp_le_length)+


lemma low_zero:
  "ucast (pack3 a b 0 AND 0x3F) = (0::byte)"
  "ucast (drop_bit 6 (pack3 a 0 0) AND 0x3F) = (0::byte)"
  unfolding pack3_def mask6
  by (rule bit_word_eqI; auto simp: bit_simps dest: bit_imp_le_length)+

lemma reassemble4:
  "assemble4 (ucast (drop_bit 18 (pack3 a b c) AND 0x3F)) (ucast (drop_bit 12 (pack3 a b c) AND 0x3F))
     (ucast (drop_bit 6 (pack3 a b c) AND 0x3F)) (ucast (pack3 a b c AND 0x3F)) = pack3 a b c"
  unfolding assemble4_def by (rule reassemble) (rule bit_pack3)

lemma reassemble3:
  "assemble4 (ucast (drop_bit 18 (pack3 a b 0) AND 0x3F)) (ucast (drop_bit 12 (pack3 a b 0) AND 0x3F))
     (ucast (drop_bit 6 (pack3 a b 0) AND 0x3F)) 0 = pack3 a b 0"
  using reassemble4[of a b 0] by (simp add: low_zero)

lemma reassemble2:
  "assemble4 (ucast (drop_bit 18 (pack3 a 0 0) AND 0x3F)) (ucast (drop_bit 12 (pack3 a 0 0) AND 0x3F))
     0 0 = pack3 a 0 0"
  using reassemble4[of a 0 0] by (simp add: low_zero)

lemma quantumBytes4:
  "quantumBytes [ucast (drop_bit 18 (pack3 a b c) AND 0x3F), ucast (drop_bit 12 (pack3 a b c) AND 0x3F),
                 ucast (drop_bit 6 (pack3 a b c) AND 0x3F), ucast (pack3 a b c AND 0x3F)] = [a, b, c]"
  by (simp add: quantumBytes_def reassemble4 unpack3)

lemma quantumBytes3:
  "quantumBytes [ucast (drop_bit 18 (pack3 a b 0) AND 0x3F), ucast (drop_bit 12 (pack3 a b 0) AND 0x3F),
                 ucast (drop_bit 6 (pack3 a b 0) AND 0x3F)] = [a, b]"
  by (simp add: quantumBytes_def reassemble3 unpack3)

lemma quantumBytes2:
  "quantumBytes [ucast (drop_bit 18 (pack3 a 0 0) AND 0x3F), ucast (drop_bit 12 (pack3 a 0 0) AND 0x3F)] = [a]"
  by (simp add: quantumBytes_def reassemble2 unpack3)

lemma decodeMap_padChar: "decodeMap padChar = None"
  by code_simp

lemma isNewline_padChar: "\<not> isNewline padChar"
  by (simp add: isNewline_def padChar_def)

lemma base64_Decode_roundtrip:
  "base64_Decode si [] (base64_EncodeToString bs) = Inr bs"
proof (induction bs arbitrary: si rule: base64_EncodeToString.induct)
  case 1
  show ?case by simp
next
  case (2 a)
  show ?case
    by (simp add: Let_def decodeMap_encodeChar decodeMap_padChar isNewline_padChar
        afterPadding_def quantumBytes2)
next
  case (3 a b)
  show ?case
    by (simp add: Let_def decodeMap_encodeChar decodeMap_padChar isNewline_padChar
        afterPadding_def quantumBytes3)
next
  case (4 a b c src)
  then show ?case
    by (simp add: Let_def decodeMap_encodeChar quantumBytes4)
qed

lemma base64_roundtrip: "base64_DecodeString (base64_EncodeToString bs) = Inr bs"
  by (simp add: base64_DecodeString_def base64_Decode_roundtrip)

subsection \<open>Decimal integers\<close>







section \<open>The binary codec\<close>

text \<open>
  Claim C9. Decoding with a format that is not empty and not one of \<open>binary\<close>, \<open>hex\<close>,
  \<open>base64\<close> fails with \<open>UnsupportedEncoding\<close> for every input; encoding with a format
  outside the empty string, \<open>binary\<close>, \<open>hex\<close>, \<open>base64\<close> fails with
  \<open>UnsupportedEncoding\<close> for every byte sequence; encoding with the empty format and with
  \<open>binary\<close> both return the input bytes unchanged.
\<close>

theorem codec_format_errors:
  "(format \<noteq> [] \<and> format \<notin> {''binary'', ''hex'', ''base64''} \<longrightarrow>
      decodeBinary encoded format = Inl (UnsupportedEncoding format)) \<and>
   (format \<notin> {[], ''binary'', ''hex'', ''base64''} \<longrightarrow>
      encodeBinary bs format = Inl (UnsupportedEncoding format)) \<and>
   encodeBinary bs [] = Inr (Bytes bs) \<and>
   encodeBinary bs ''binary'' = Inr (Bytes bs)"
  by (simp add: decodeBinary_def decodeBinaryKnown_def encodeBinary_def)

theorem codec_format_errors_witness:
  "decodeBinary (Str ''00'') ''utf8'' = Inl (UnsupportedEncoding ''utf8'') \<and>
   encodeBinary [0, 255] ''utf8'' = Inl (UnsupportedEncoding ''utf8'') \<and>
   encodeBinary [0, 255] [] = Inr (Bytes [0, 255]) \<and>
   encodeBinary [0, 255] ''binary'' = Inr (Bytes [0, 255])"
  using codec_format_errors [of "''utf8''" "Str ''00''" "[0, 255]"] by simp

text \<open>
  Claim C4. Decoding with the empty format tries the raw bytes, then hexadecimal, then
  base64, and returns the first success; it fails, with \<open>UnrecognizedEncoding\<close>, exactly
  when all three fail. So a byte sequence decodes to itself, a string that is valid
  hexadecimal decodes as explicit hexadecimal decoding does, whether or not it is valid
  base64 too, and \<open>deadbeef\<close>, which is both, decodes to the four bytes
  \<open>de ad be ef\<close> and not to its six base64 bytes.
\<close>

theorem decode_autodetect_priority:
  "decodeBinary (Bytes bs) [] = Inr bs \<and>
   decodeBinary encoded [] =
     (if \<not> isl (decodeBytes encoded) then decodeBytes encoded
      else if \<not> isl (decodeHex encoded) then decodeHex encoded
      else if \<not> isl (decodeBase64 encoded) then decodeBase64 encoded
      else Inl UnrecognizedEncoding) \<and>
   (isl (decodeBinary encoded []) \<longleftrightarrow>
      isl (decodeBytes encoded) \<and> isl (decodeHex encoded) \<and> isl (decodeBase64 encoded)) \<and>
   (\<not> isl (decodeHex (Str s)) \<longrightarrow> decodeBinary (Str s) [] = decodeBinary (Str s) ''hex'') \<and>
   decodeBinary (Str ''deadbeef'') [] = Inr [0xde, 0xad, 0xbe, 0xef] \<and>
   decodeBinary (Str ''deadbeef'') ''hex'' = Inr [0xde, 0xad, 0xbe, 0xef] \<and>
   decodeBinary (Str ''deadbeef'') ''base64'' = Inr [0x75, 0xe6, 0x9d, 0x6d, 0xe7, 0x9f]"
proof -
  have raw: "decodeBinary (Bytes bs) [] = Inr bs"
    by (simp add: decodeBinary_def decodeBinaryDetect_def decodeBytes_def)
  have order: "decodeBinary encoded [] =
     (if \<not> isl (decodeBytes encoded) then decodeBytes encoded
      else if \<not> isl (decodeHex encoded) then decodeHex encoded
      else if \<not> isl (decodeBase64 encoded) then decodeBase64 encoded
      else Inl UnrecognizedEncoding)"
    by (simp add: decodeBinary_def decodeBinaryDetect_def split: sum.splits)
  have fails: "isl (decodeBinary encoded []) \<longleftrightarrow>
      isl (decodeBytes encoded) \<and> isl (decodeHex encoded) \<and> isl (decodeBase64 encoded)"
    by (simp add: decodeBinary_def decodeBinaryDetect_def split: sum.splits)
  have hex: "\<not> isl (decodeHex (Str s)) \<longrightarrow>
      decodeBinary (Str s) [] = decodeBinary (Str s) ''hex''"
    by (simp add: decodeBinary_def decodeBinaryDetect_def decodeBinaryKnown_def decodeBytes_def
        split: sum.splits)
  have d1: "decodeBinary (Str ''deadbeef'') [] = Inr [0xde, 0xad, 0xbe, 0xef]"
    by code_simp
  have d2: "decodeBinary (Str ''deadbeef'') ''hex'' = Inr [0xde, 0xad, 0xbe, 0xef]"
    by code_simp
  have d3: "decodeBinary (Str ''deadbeef'') ''base64'' =
      Inr [0x75, 0xe6, 0x9d, 0x6d, 0xe7, 0x9f]"
    by code_simp
  from raw order fails hex d1 d2 d3 show ?thesis by blast
qed

theorem decode_autodetect_priority_witness:
  "\<not> isl (decodeHex (Str ''C0ffee'')) \<and>
   decodeBinary (Str ''C0ffee'') [] = decodeBinary (Str ''C0ffee'') ''hex''"
proof -
  have h: "\<not> isl (decodeHex (Str ''C0ffee''))"
    by code_simp
  from decode_autodetect_priority [of "[]" "Str ''C0ffee''" "''C0ffee''"]
  have "\<not> isl (decodeHex (Str ''C0ffee'')) \<longrightarrow>
      decodeBinary (Str ''C0ffee'') [] = decodeBinary (Str ''C0ffee'') ''hex''"
    by blast
  with h show ?thesis by blast
qed

text \<open>
  Claim C5. For every byte sequence, the empty one included, and every format among
  \<open>binary\<close>, \<open>hex\<close> and \<open>base64\<close>, encoding succeeds and decoding the result with
  the same format gives the byte sequence back.
\<close>

theorem codec_roundtrip:
  "format \<in> {''binary'', ''hex'', ''base64''} \<Longrightarrow>
     \<not> isl (encodeBinary bs format) \<and>
     decodeBinary (projr (encodeBinary bs format)) format = Inr bs"
  by (auto simp: encodeBinary_def decodeBinary_def decodeBinaryKnown_def decodeBytes_def
      decodeHex_def decodeBase64_def hex_roundtrip base64_roundtrip)

theorem codec_roundtrip_witness:
  "''base64'' \<in> {''binary'', ''hex'', ''base64''} \<and>
   encodeBinary [0xff, 0, 0x41, 0x42] ''base64'' = Inr (Str ''/wBBQg=='') \<and>
   decodeBinary (Str ''/wBBQg=='') ''base64'' = Inr [0xff, 0, 0x41, 0x42]"
proof -
  have e: "encodeBinary [0xff, 0, 0x41, 0x42] ''base64'' = Inr (Str ''/wBBQg=='')"
    by code_simp
  have m: "''base64'' \<in> {''binary'', ''hex'', ''base64''}" by simp
  from codec_roundtrip [OF m, of "[0xff, 0, 0x41, 0x42]"] e m show ?thesis by simp
qed

section \<open>The signature engine\<close>



text \<open>
  Claim C2, as amended. For an RSA key, signing and verification perform PKCS#1 v1.5 when
  \<open>options.type\<close> is unset or the empty string, perform PSS when it is \<open>pss\<close>, and fail
  with \<open>UnsupportedPaddingScheme\<close> for every other value, the value \<open>pkcs1v15\<close>
  included.
\<close>

theorem rsa_padding_dispatch:
  "(index opts ''type'' = [] \<longrightarrow>
      signRSA lib rnd k h digest opts = signPKCS lib rnd k h digest \<and>
      verifyRSA lib pk h digest signature opts =
        Inr (verifyPKCS lib pk h digest signature)) \<and>
   (index opts ''type'' = ''pss'' \<longrightarrow>
      signRSA lib rnd k h digest opts = signPSS lib rnd k h digest opts \<and>
      verifyRSA lib pk h digest signature opts =
        Inr (verifyPSS lib pk h digest signature opts)) \<and>
   (index opts ''type'' \<notin> {[], ''pss''} \<longrightarrow>
      signRSA lib rnd k h digest opts =
        Inl (UnsupportedPaddingScheme (index opts ''type'')) \<and>
      verifyRSA lib pk h digest signature opts =
        Inl (UnsupportedPaddingScheme (index opts ''type''))) \<and>
   (PrivateKey.Algorithm sk = ''RSA'' \<and> PrivateKey.Key sk = RSAPrivate k \<longrightarrow>
      executeSign lib rnd sk h digest format opts =
        (case signRSA lib rnd k h digest opts of
           Inl err \<Rightarrow> Inl err
         | Inr sg \<Rightarrow> encodeBinary sg format)) \<and>
   (PublicKey.Algorithm vk = ''RSA'' \<and> PublicKey.Key vk = RSAPublic pk \<longrightarrow>
      executeVerify lib vk h digest signature opts =
        verifyRSA lib pk h digest signature opts) \<and>
   (opts ''type'' = None \<longrightarrow> index opts ''type'' = []) \<and>
   (opts ''type'' = Some ''pkcs1v15'' \<longrightarrow>
      signRSA lib rnd k h digest opts = Inl (UnsupportedPaddingScheme ''pkcs1v15'') \<and>
      verifyRSA lib pk h digest signature opts =
        Inl (UnsupportedPaddingScheme ''pkcs1v15''))"
  by (simp add: signRSA_def verifyRSA_def UnsupportedPaddingScheme_def index_def
      executeSign_def executeVerify_def)

theorem rsa_padding_dispatch_witness:
  "signRSA sampleLib [] sampleRsaPrivate 5 [7, 8] Map.empty = Inr [1, 7, 8] \<and>
   verifyRSA sampleLib sampleRsaPublic 5 [7, 8] [1, 7, 8] Map.empty = Inr True \<and>
   signRSA sampleLib [] sampleRsaPrivate 5 [7, 8] [''type'' \<mapsto> ''pss''] = Inr [2, 7, 8] \<and>
   verifyRSA sampleLib sampleRsaPublic 5 [7, 8] [2, 7, 8] [''type'' \<mapsto> ''pss''] = Inr True \<and>
   signRSA sampleLib [] sampleRsaPrivate 5 [7, 8] [''type'' \<mapsto> ''oaep''] =
     Inl (UnsupportedPaddingScheme ''oaep'')"
proof -
  have i0: "index Map.empty ''type'' = []"
    and i1: "index [''type'' \<mapsto> ''pss''] ''type'' = ''pss''"
    and i2: "index [''type'' \<mapsto> ''oaep''] ''type'' = ''oaep''"
    by (simp_all add: index_def)
  have p: "signPKCS sampleLib [] sampleRsaPrivate 5 [7, 8] = Inr [1, 7, 8]"
    "verifyPKCS sampleLib sampleRsaPublic 5 [7, 8] [1, 7, 8] = True"
    "signPSS sampleLib [] sampleRsaPrivate 5 [7, 8] [''type'' \<mapsto> ''pss''] = Inr [2, 7, 8]"
    "verifyPSS sampleLib sampleRsaPublic 5 [7, 8] [2, 7, 8] [''type'' \<mapsto> ''pss''] = True"
    by (simp_all add: signPKCS_def verifyPKCS_def signPSS_def verifyPSS_def sampleLib_def)
  from rsa_padding_dispatch
    [where opts = Map.empty and lib = sampleLib and rnd = "[]" and k = sampleRsaPrivate
      and h = 5 and digest = "[7, 8]" and pk = sampleRsaPublic and signature = "[1, 7, 8]"]
    i0 p
  have a: "signRSA sampleLib [] sampleRsaPrivate 5 [7, 8] Map.empty = Inr [1, 7, 8] \<and>
      verifyRSA sampleLib sampleRsaPublic 5 [7, 8] [1, 7, 8] Map.empty = Inr True"
    by simp
  from rsa_padding_dispatch
    [where opts = "[''type'' \<mapsto> ''pss'']" and lib = sampleLib and rnd = "[]"
      and k = sampleRsaPrivate and h = 5 and digest = "[7, 8]" and pk = sampleRsaPublic
      and signature = "[2, 7, 8]"]
    i1 p
  have b: "signRSA sampleLib [] sampleRsaPrivate 5 [7, 8] [''type'' \<mapsto> ''pss''] = Inr [2, 7, 8] \<and>
      verifyRSA sampleLib sampleRsaPublic 5 [7, 8] [2, 7, 8] [''type'' \<mapsto> ''pss''] = Inr True"
    by simp
  from rsa_padding_dispatch
    [where opts = "[''type'' \<mapsto> ''oaep'']" and lib = sampleLib and rnd = "[]"
      and k = sampleRsaPrivate and h = 5 and digest = "[7, 8]"]
    i2
  have c: "signRSA sampleLib [] sampleRsaPrivate 5 [7, 8] [''type'' \<mapsto> ''oaep''] =
      Inl (UnsupportedPaddingScheme ''oaep'')"
    by simp
  from a b c show ?thesis by blast
qed

text \<open>
  The claim as stated fails for the type \<open>pkcs1v15\<close>: signing and verification do
  not perform PKCS#1 v1.5 there, they fail with the error of an unsupported type.
\<close>

theorem rsa_padding_pkcs1v15_counterexample:
  "signPKCS sampleLib [] sampleRsaPrivate 5 [7, 8] = Inr [1, 7, 8] \<and>
   signRSA sampleLib [] sampleRsaPrivate 5 [7, 8] [''type'' \<mapsto> ''pkcs1v15''] =
     Inl (New ''unsupported type: pkcs1v15'') \<and>
   verifyPKCS sampleLib sampleRsaPublic 5 [7, 8] [1, 7, 8] = True \<and>
   verifyRSA sampleLib sampleRsaPublic 5 [7, 8] [1, 7, 8] [''type'' \<mapsto> ''pkcs1v15''] =
     Inl (New ''unsupported type: pkcs1v15'')"
  by (simp add: signRSA_def verifyRSA_def signPKCS_def verifyPKCS_def sampleLib_def index_def)

lemma validatePublicKey_None:
  "validatePublicKey vk = None \<longleftrightarrow>
     (PublicKey.Algorithm vk = ''DSA'' \<and> (\<exists>k. PublicKey.Key vk = DSAPublic k)) \<or>
     (PublicKey.Algorithm vk = ''ECDSA'' \<and> (\<exists>k. PublicKey.Key vk = ECDSAPublic k)) \<or>
     (PublicKey.Algorithm vk = ''RSA'' \<and> (\<exists>k. PublicKey.Key vk = RSAPublic k))"
  by (auto simp: validatePublicKey_def split: key.splits)

lemma executeVerify_error_iff:
  assumes "validatePublicKey vk = None"
  shows "executeVerify lib vk h digest signature opts = Inl err \<longleftrightarrow>
     (PublicKey.Algorithm vk \<in> {''DSA'', ''ECDSA''} \<and> asn1_Unmarshal lib signature = Inl err) \<or>
     (PublicKey.Algorithm vk = ''RSA'' \<and> index opts ''type'' \<notin> {[], ''pss''} \<and>
      err = UnsupportedPaddingScheme (index opts ''type''))"
  using assms unfolding validatePublicKey_None
  by (auto simp: executeVerify_def verifyDSA_def verifyECDSA_def verifyRSA_def
      UnsupportedPaddingScheme_def split: sum.splits prod.splits if_splits)

lemma executeVerify_mismatch:
  assumes "validatePublicKey vk = None"
  shows "(PublicKey.Key vk = RSAPublic rk \<and> index opts ''type'' = [] \<and>
          rsa_VerifyPKCS1v15 lib rk h digest signature = Some e \<longrightarrow>
          executeVerify lib vk h digest signature opts = Inr False)"
    and "(PublicKey.Key vk = RSAPublic rk \<and> index opts ''type'' = ''pss'' \<and>
          rsa_VerifyPSS lib rk h digest signature (decodePssOptions opts) = Some e \<longrightarrow>
          executeVerify lib vk h digest signature opts = Inr False)"
    and "(PublicKey.Key vk = DSAPublic dk \<and> asn1_Unmarshal lib signature = Inr (r, s) \<and>
          \<not> dsa_Verify lib dk digest r s \<longrightarrow>
          executeVerify lib vk h digest signature opts = Inr False)"
    and "(PublicKey.Key vk = ECDSAPublic ek \<and> asn1_Unmarshal lib signature = Inr (r, s) \<and>
          \<not> ecdsa_Verify lib ek digest r s \<longrightarrow>
          executeVerify lib vk h digest signature opts = Inr False)"
  using assms unfolding validatePublicKey_None
  by (auto simp: executeVerify_def verifyDSA_def verifyECDSA_def verifyRSA_def
      verifyPKCS_def verifyPSS_def)

text \<open>
  Claim C3. For a valid key, verification returns an error only when the ASN.1 encoding
  of \<open>(R, S)\<close> is rejected (DSA, ECDSA) or the RSA padding type is unsupported; when the
  primitive rejects a signature (PKCS#1 v1.5, PSS) or finds that it does not match
  (DSA, ECDSA), the result is the boolean false. An algorithm tag outside RSA, DSA and
  ECDSA gives the error of an invalid public key.
\<close>

theorem verify_mismatch_is_false:
  "(validatePublicKey vk = None \<longrightarrow>
      (executeVerify lib vk h digest signature opts = Inl err \<longleftrightarrow>
         (PublicKey.Algorithm vk \<in> {''DSA'', ''ECDSA''} \<and>
          asn1_Unmarshal lib signature = Inl err) \<or>
         (PublicKey.Algorithm vk = ''RSA'' \<and> index opts ''type'' \<notin> {[], ''pss''} \<and>
          err = UnsupportedPaddingScheme (index opts ''type'')))) \<and>
   (validatePublicKey vk = None \<and> PublicKey.Key vk = RSAPublic rk \<and>
      index opts ''type'' = [] \<and>
      rsa_VerifyPKCS1v15 lib rk h digest signature = Some e \<longrightarrow>
      executeVerify lib vk h digest signature opts = Inr False) \<and>
   (validatePublicKey vk = None \<and> PublicKey.Key vk = RSAPublic rk \<and>
      index opts ''type'' = ''pss'' \<and>
      rsa_VerifyPSS lib rk h digest signature (decodePssOptions opts) = Some e \<longrightarrow>
      executeVerify lib vk h digest signature opts = Inr False) \<and>
   (validatePublicKey vk = None \<and> PublicKey.Key vk = DSAPublic dk \<and>
      asn1_Unmarshal lib signature = Inr (r, s) \<and> \<not> dsa_Verify lib dk digest r s \<longrightarrow>
      executeVerify lib vk h digest signature opts = Inr False) \<and>
   (validatePublicKey vk = None \<and> PublicKey.Key vk = ECDSAPublic ek \<and>
      asn1_Unmarshal lib signature = Inr (r, s) \<and> \<not> ecdsa_Verify lib ek digest r s \<longrightarrow>
      executeVerify lib vk h digest signature opts = Inr False) \<and>
   (PublicKey.Algorithm vk \<notin> {''RSA'', ''DSA'', ''ECDSA''} \<longrightarrow>
      executeVerify lib vk h digest signature opts = Inl (New ''invalid public key''))"
proof -
  have tag: "PublicKey.Algorithm vk \<notin> {''RSA'', ''DSA'', ''ECDSA''} \<longrightarrow>
      executeVerify lib vk h digest signature opts = Inl (New ''invalid public key'')"
    by (simp add: executeVerify_def)
  note err = executeVerify_error_iff [of vk lib h digest signature opts err]
  note mis = executeVerify_mismatch [of vk]
  from err mis(1) [of rk opts lib h digest signature e]
    mis(2) [of rk opts lib h digest signature e]
    mis(3) [of dk lib signature r s digest h opts]
    mis(4) [of ek lib signature r s digest h opts] tag
  show ?thesis by blast
qed

theorem verify_mismatch_is_false_witness:
  "validatePublicKey sampleRsaKey = None \<and>
   rsa_VerifyPKCS1v15 sampleLib sampleRsaPublic 5 [7, 8] [9, 9] = Some sampleVerifyError \<and>
   executeVerify sampleLib sampleRsaKey 5 [7, 8] [9, 9] Map.empty = Inr False \<and>
   validatePublicKey sampleDsaKey = None \<and>
   asn1_Unmarshal sampleLib [5, 3] = Inr (5, 3) \<and>
   \<not> dsa_Verify sampleLib sampleDsaPublic [7, 8] 5 3 \<and>
   executeVerify sampleLib sampleDsaKey 5 [7, 8] [5, 3] Map.empty = Inr False"
proof -
  have r1: "validatePublicKey sampleRsaKey = None"
    by (simp add: validatePublicKey_def sampleRsaKey_def)
  have r2: "PublicKey.Key sampleRsaKey = RSAPublic sampleRsaPublic"
    by (simp add: sampleRsaKey_def)
  have r3: "index Map.empty ''type'' = []"
    by (simp add: index_def)
  have r4: "rsa_VerifyPKCS1v15 sampleLib sampleRsaPublic 5 [7, 8] [9, 9] = Some sampleVerifyError"
    by (simp add: sampleLib_def)
  have d1: "validatePublicKey sampleDsaKey = None"
    by (simp add: validatePublicKey_def sampleDsaKey_def)
  have d2: "PublicKey.Key sampleDsaKey = DSAPublic sampleDsaPublic"
    by (simp add: sampleDsaKey_def)
  have d3: "asn1_Unmarshal sampleLib [5, 3] = Inr (5, 3)"
    by (simp add: sampleLib_def sampleUnmarshal_def)
  have d4: "\<not> dsa_Verify sampleLib sampleDsaPublic [7, 8] 5 3"
    by (simp add: sampleLib_def)
  from verify_mismatch_is_false
    [where vk = sampleRsaKey and lib = sampleLib and h = 5 and digest = "[7, 8]"
      and signature = "[9, 9]" and opts = Map.empty and rk = sampleRsaPublic
      and e = sampleVerifyError]
  have "validatePublicKey sampleRsaKey = None \<and>
      PublicKey.Key sampleRsaKey = RSAPublic sampleRsaPublic \<and>
      index Map.empty ''type'' = [] \<and>
      rsa_VerifyPKCS1v15 sampleLib sampleRsaPublic 5 [7, 8] [9, 9] = Some sampleVerifyError \<longrightarrow>
      executeVerify sampleLib sampleRsaKey 5 [7, 8] [9, 9] Map.empty = Inr False"
    by blast
  with r1 r2 r3 r4
  have rsa: "executeVerify sampleLib sampleRsaKey 5 [7, 8] [9, 9] Map.empty = Inr False"
    by blast
  from verify_mismatch_is_false
    [where vk = sampleDsaKey and lib = sampleLib and h = 5 and digest = "[7, 8]"
      and signature = "[5, 3]" and opts = Map.empty and dk = sampleDsaPublic
      and r = 5 and s = 3]
  have "validatePublicKey sampleDsaKey = None \<and>
      PublicKey.Key sampleDsaKey = DSAPublic sampleDsaPublic \<and>
      asn1_Unmarshal sampleLib [5, 3] = Inr (5, 3) \<and>
      \<not> dsa_Verify sampleLib sampleDsaPublic [7, 8] 5 3 \<longrightarrow>
      executeVerify sampleLib sampleDsaKey 5 [7, 8] [5, 3] Map.empty = Inr False"
    by blast
  with d1 d2 d3 d4
  have dsa: "executeVerify sampleLib sampleDsaKey 5 [7, 8] [5, 3] Map.empty = Inr False"
    by blast
  from r1 r4 rsa d1 d3 d4 dsa show ?thesis by blast
qed

section \<open>The incremental signer and verifier\<close>







text \<open>
  Claim C7. A terminal \<open>sign\<close> or \<open>verify\<close> leaves the context as it was: plaintext,
  digest name and options. An \<open>update\<close> after it extends the same plaintext, and the next
  terminal call signs or verifies the digest of the longer plaintext.
\<close>

theorem finalize_preserves_accumulator:
  "snd (Signer_Sign lib rnd signer sk format) = signer \<and>
   snd (Verifier_Verify lib verifier vk signatureEncoded) = verifier \<and>
   (decodeBinary additionEncoded aformat = Inr addition \<longrightarrow>
      Signer_Update (snd (Signer_Sign lib rnd signer sk format)) additionEncoded aformat =
        (None, signer\<lparr>signer_plaintext := signer_plaintext signer @ addition\<rparr>) \<and>
      fst (Signer_Sign lib rnd'
             (snd (Signer_Update (snd (Signer_Sign lib rnd signer sk format))
                     additionEncoded aformat)) sk' format') =
        (case hashPlaintext lib (signer_functionEncoded signer)
                (signer_plaintext signer @ addition) of
           Inl err \<Rightarrow> Inl err
         | Inr digest \<Rightarrow>
             executeSign lib rnd' sk' (signer_function signer) digest format'
               (signer_options signer)) \<and>
      Verifier_Update (snd (Verifier_Verify lib verifier vk signatureEncoded))
          additionEncoded aformat =
        (None, verifier\<lparr>verifier_plaintext := verifier_plaintext verifier @ addition\<rparr>) \<and>
      fst (Verifier_Verify lib
             (snd (Verifier_Update (snd (Verifier_Verify lib verifier vk signatureEncoded))
                     additionEncoded aformat)) vk' signatureEncoded') =
        (case decodeSignature signatureEncoded' of
           Inl err \<Rightarrow> Inl err
         | Inr signature \<Rightarrow>
             (case hashPlaintext lib (verifier_functionEncoded verifier)
                     (verifier_plaintext verifier @ addition) of
                Inl err \<Rightarrow> Inl err
              | Inr digest \<Rightarrow>
                  executeVerify lib vk' (verifier_function verifier) digest signature
                    (verifier_options verifier))))"
proof -
  have s: "snd (Signer_Sign lib rnd signer sk format) = signer"
    by (simp add: Signer_Sign_def split: sum.splits)
  have v: "snd (Verifier_Verify lib verifier vk signatureEncoded) = verifier"
    by (simp add: Verifier_Verify_def split: sum.splits)
  show ?thesis
    unfolding s v
    by (simp add: Signer_Update_def Verifier_Update_def Signer_Sign_def Verifier_Verify_def
        split: sum.splits)
qed

theorem finalize_preserves_accumulator_witness:
  "decodeBinary (Str ''0304'') ''hex'' = Inr [3, 4] \<and>
   snd (Signer_Sign sampleLib [] sampleSigner sampleRsaPrivateKey []) = sampleSigner \<and>
   Signer_Update (snd (Signer_Sign sampleLib [] sampleSigner sampleRsaPrivateKey []))
       (Str ''0304'') ''hex'' =
     (None, sampleSigner\<lparr>signer_plaintext := [1, 2, 3, 4]\<rparr>) \<and>
   fst (Signer_Sign sampleLib [] sampleSigner sampleRsaPrivateKey []) =
     Inr (Bytes [1, 2, 1]) \<and>
   fst (Signer_Sign sampleLib []
          (snd (Signer_Update (snd (Signer_Sign sampleLib [] sampleSigner sampleRsaPrivateKey []))
                  (Str ''0304'') ''hex'')) sampleRsaPrivateKey []) =
     Inr (Bytes [1, 4, 3, 2, 1])"
proof -
  have dec: "decodeBinary (Str ''0304'') ''hex'' = Inr [3, 4]"
    by code_simp
  note inst = finalize_preserves_accumulator
    [where lib = sampleLib and rnd = "[]" and signer = sampleSigner
      and sk = sampleRsaPrivateKey and format = "[]" and additionEncoded = "Str ''0304''"
      and aformat = "''hex''" and addition = "[3, 4]" and rnd' = "[]"
      and sk' = sampleRsaPrivateKey and format' = "[]"]
  from inst have keep:
    "snd (Signer_Sign sampleLib [] sampleSigner sampleRsaPrivateKey []) = sampleSigner"
    by blast
  from inst have "decodeBinary (Str ''0304'') ''hex'' = Inr [3, 4] \<longrightarrow>
      Signer_Update (snd (Signer_Sign sampleLib [] sampleSigner sampleRsaPrivateKey []))
          (Str ''0304'') ''hex'' =
        (None, sampleSigner\<lparr>signer_plaintext := signer_plaintext sampleSigner @ [3, 4]\<rparr>) \<and>
      fst (Signer_Sign sampleLib []
             (snd (Signer_Update (snd (Signer_Sign sampleLib [] sampleSigner sampleRsaPrivateKey []))
                     (Str ''0304'') ''hex'')) sampleRsaPrivateKey []) =
        (case hashPlaintext sampleLib (signer_functionEncoded sampleSigner)
                (signer_plaintext sampleSigner @ [3, 4]) of
           Inl err \<Rightarrow> Inl err
         | Inr digest \<Rightarrow>
             executeSign sampleLib [] sampleRsaPrivateKey (signer_function sampleSigner) digest []
               (signer_options sampleSigner))"
    by blast
  with dec have after:
    "Signer_Update (snd (Signer_Sign sampleLib [] sampleSigner sampleRsaPrivateKey []))
          (Str ''0304'') ''hex'' =
        (None, sampleSigner\<lparr>signer_plaintext := signer_plaintext sampleSigner @ [3, 4]\<rparr>)"
    "fst (Signer_Sign sampleLib []
             (snd (Signer_Update (snd (Signer_Sign sampleLib [] sampleSigner sampleRsaPrivateKey []))
                     (Str ''0304'') ''hex'')) sampleRsaPrivateKey []) =
        (case hashPlaintext sampleLib (signer_functionEncoded sampleSigner)
                (signer_plaintext sampleSigner @ [3, 4]) of
           Inl err \<Rightarrow> Inl err
         | Inr digest \<Rightarrow>
             executeSign sampleLib [] sampleRsaPrivateKey (signer_function sampleSigner) digest []
               (signer_options sampleSigner))"
    by blast+
  have run2: "(case hashPlaintext sampleLib (signer_functionEncoded sampleSigner)
                (signer_plaintext sampleSigner @ [3, 4]) of
           Inl err \<Rightarrow> Inl err
         | Inr digest \<Rightarrow>
             executeSign sampleLib [] sampleRsaPrivateKey (signer_function sampleSigner) digest []
               (signer_options sampleSigner)) = Inr (Bytes [1, 4, 3, 2, 1])"
    by (simp add: hashPlaintext_def executeSign_def signRSA_def signPKCS_def encodeBinary_def
        index_def sampleLib_def sampleSigner_def sampleRsaPrivateKey_def)
  have run1: "fst (Signer_Sign sampleLib [] sampleSigner sampleRsaPrivateKey []) =
      Inr (Bytes [1, 2, 1])"
    by (simp add: Signer_Sign_def hashPlaintext_def executeSign_def signRSA_def signPKCS_def
        encodeBinary_def index_def sampleLib_def sampleSigner_def sampleRsaPrivateKey_def)
  have pt: "signer_plaintext sampleSigner @ [3, 4] = [1, 2, 3, 4]"
    by (simp add: sampleSigner_def)
  from dec keep after run1 run2 pt show ?thesis by simp
qed

text \<open>
  Claim C10. For a key whose algorithm tag is RSA, DSA or ECDSA and whose key value has
  another dynamic type, the one-shot \<open>Sign\<close> and \<open>Verify\<close> throw the error of the key
  validation, while \<open>Signer.Sign\<close> and \<open>Verifier.Verify\<close>, which do not validate the
  key, reach the unchecked type assertion and panic.
\<close>

theorem incremental_skips_key_validation:
  "(PrivateKey.Algorithm sk \<in> {''RSA'', ''DSA'', ''ECDSA''} \<and>
      validatePrivateKey sk = Some err \<longrightarrow>
      Sign lib rnd sk functionEncoded plaintextEncoded format opts = Inl err \<and>
      err \<in> {New ''invalid RSA private key'', New ''invalid DSA private key'',
              New ''invalid ECDSA private key''} \<and>
      (hashPlaintext lib (signer_functionEncoded signer) (signer_plaintext signer) = Inr digest
         \<longrightarrow> fst (Signer_Sign lib rnd signer sk format) = Inl TypeAssertionPanic)) \<and>
   (PublicKey.Algorithm vk \<in> {''RSA'', ''DSA'', ''ECDSA''} \<and>
      validatePublicKey vk = Some err' \<longrightarrow>
      Verify lib vk functionEncoded plaintextEncoded signatureEncoded opts = Inl err' \<and>
      (decodeSignature signatureEncoded = Inr signature \<and>
       hashPlaintext lib (verifier_functionEncoded verifier) (verifier_plaintext verifier) =
         Inr digest'
         \<longrightarrow> fst (Verifier_Verify lib verifier vk signatureEncoded) = Inl TypeAssertionPanic))"
proof -
  have priv: "Sign lib rnd sk functionEncoded plaintextEncoded format opts = Inl err \<and>
      err \<in> {New ''invalid RSA private key'', New ''invalid DSA private key'',
              New ''invalid ECDSA private key''} \<and>
      (hashPlaintext lib (signer_functionEncoded signer) (signer_plaintext signer) = Inr digest
         \<longrightarrow> fst (Signer_Sign lib rnd signer sk format) = Inl TypeAssertionPanic)"
    if "PrivateKey.Algorithm sk \<in> {''RSA'', ''DSA'', ''ECDSA''}"
      and "validatePrivateKey sk = Some err"
    using that
    by (auto simp: Sign_def prepareSign_def validatePrivateKey_def Signer_Sign_def
        executeSign_def split: if_splits key.splits)
  have pub: "Verify lib vk functionEncoded plaintextEncoded signatureEncoded opts = Inl err' \<and>
      (decodeSignature signatureEncoded = Inr signature \<and>
       hashPlaintext lib (verifier_functionEncoded verifier) (verifier_plaintext verifier) =
         Inr digest'
         \<longrightarrow> fst (Verifier_Verify lib verifier vk signatureEncoded) = Inl TypeAssertionPanic)"
    if "PublicKey.Algorithm vk \<in> {''RSA'', ''DSA'', ''ECDSA''}"
      and "validatePublicKey vk = Some err'"
    using that
    by (auto simp: Verify_def prepareVerify_def validatePublicKey_def Verifier_Verify_def
        executeVerify_def split: if_splits key.splits)
  from priv pub show ?thesis by blast
qed

theorem incremental_skips_key_validation_witness:
  "PrivateKey.Algorithm mistypedPrivateKey \<in> {''RSA'', ''DSA'', ''ECDSA''} \<and>
   validatePrivateKey mistypedPrivateKey = Some (New ''invalid RSA private key'') \<and>
   Sign sampleLib [] mistypedPrivateKey ''sha256'' (Bytes [1, 2]) [] Map.empty =
     Inl (New ''invalid RSA private key'') \<and>
   hashPlaintext sampleLib (signer_functionEncoded sampleSigner) (signer_plaintext sampleSigner) =
     Inr [2, 1] \<and>
   fst (Signer_Sign sampleLib [] sampleSigner mistypedPrivateKey []) = Inl TypeAssertionPanic \<and>
   PublicKey.Algorithm mistypedPublicKey \<in> {''RSA'', ''DSA'', ''ECDSA''} \<and>
   validatePublicKey mistypedPublicKey = Some (New ''invalid DSA public key'') \<and>
   Verify sampleLib mistypedPublicKey ''sha256'' (Bytes [1, 2]) (Bytes [1, 2, 1]) Map.empty =
     Inl (New ''invalid DSA public key'') \<and>
   decodeSignature (Bytes [1, 2, 1]) = Inr [1, 2, 1] \<and>
   fst (Verifier_Verify sampleLib sampleVerifier mistypedPublicKey (Bytes [1, 2, 1])) =
     Inl TypeAssertionPanic"
proof -
  have a: "PrivateKey.Algorithm mistypedPrivateKey \<in> {''RSA'', ''DSA'', ''ECDSA''}"
    by (simp add: mistypedPrivateKey_def)
  have b: "validatePrivateKey mistypedPrivateKey = Some (New ''invalid RSA private key'')"
    by (simp add: validatePrivateKey_def mistypedPrivateKey_def)
  have c: "hashPlaintext sampleLib (signer_functionEncoded sampleSigner)
      (signer_plaintext sampleSigner) = Inr [2, 1]"
    by (simp add: hashPlaintext_def sampleLib_def sampleSigner_def)
  from incremental_skips_key_validation
    [where sk = mistypedPrivateKey and err = "New ''invalid RSA private key''"
      and lib = sampleLib and rnd = "[]" and functionEncoded = "''sha256''"
      and plaintextEncoded = "Bytes [1, 2]" and format = "[]" and opts = Map.empty
      and signer = sampleSigner and digest = "[2, 1]"]
  have "PrivateKey.Algorithm mistypedPrivateKey \<in> {''RSA'', ''DSA'', ''ECDSA''} \<and>
      validatePrivateKey mistypedPrivateKey = Some (New ''invalid RSA private key'') \<longrightarrow>
      Sign sampleLib [] mistypedPrivateKey ''sha256'' (Bytes [1, 2]) [] Map.empty =
        Inl (New ''invalid RSA private key'') \<and>
      (hashPlaintext sampleLib (signer_functionEncoded sampleSigner)
          (signer_plaintext sampleSigner) = Inr [2, 1]
         \<longrightarrow> fst (Signer_Sign sampleLib [] sampleSigner mistypedPrivateKey []) =
           Inl TypeAssertionPanic)"
    by blast
  with a b c have priv:
    "Sign sampleLib [] mistypedPrivateKey ''sha256'' (Bytes [1, 2]) [] Map.empty =
        Inl (New ''invalid RSA private key'')"
    "fst (Signer_Sign sampleLib [] sampleSigner mistypedPrivateKey []) = Inl TypeAssertionPanic"
    by blast+
  have d: "PublicKey.Algorithm mistypedPublicKey \<in> {''RSA'', ''DSA'', ''ECDSA''}"
    by (simp add: mistypedPublicKey_def)
  have e: "validatePublicKey mistypedPublicKey = Some (New ''invalid DSA public key'')"
    by (simp add: validatePublicKey_def mistypedPublicKey_def)
  have f: "decodeSignature (Bytes [1, 2, 1]) = Inr [1, 2, 1]"
    by (simp add: decodeSignature_def decodeBinaryDetect_def decodeBytes_def)
  have g: "hashPlaintext sampleLib (verifier_functionEncoded sampleVerifier)
      (verifier_plaintext sampleVerifier) = Inr [2, 1]"
    by (simp add: hashPlaintext_def sampleLib_def sampleVerifier_def)
  from incremental_skips_key_validation
    [where vk = mistypedPublicKey and err' = "New ''invalid DSA public key''"
      and lib = sampleLib and functionEncoded = "''sha256''"
      and plaintextEncoded = "Bytes [1, 2]" and signatureEncoded = "Bytes [1, 2, 1]"
      and opts = Map.empty and verifier = sampleVerifier and digest' = "[2, 1]"
      and signature = "[1, 2, 1]"]
  have "PublicKey.Algorithm mistypedPublicKey \<in> {''RSA'', ''DSA'', ''ECDSA''} \<and>
      validatePublicKey mistypedPublicKey = Some (New ''invalid DSA public key'') \<longrightarrow>
      Verify sampleLib mistypedPublicKey ''sha256'' (Bytes [1, 2]) (Bytes [1, 2, 1]) Map.empty =
        Inl (New ''invalid DSA public key'') \<and>
      (decodeSignature (Bytes [1, 2, 1]) = Inr [1, 2, 1] \<and>
       hashPlaintext sampleLib (verifier_functionEncoded sampleVerifier)
          (verifier_plaintext sampleVerifier) = Inr [2, 1]
         \<longrightarrow> fst (Verifier_Verify sampleLib sampleVerifier mistypedPublicKey (Bytes [1, 2, 1])) =
           Inl TypeAssertionPanic)"
    by blast
  with d e f g have pub:
    "Verify sampleLib mistypedPublicKey ''sha256'' (Bytes [1, 2]) (Bytes [1, 2, 1]) Map.empty =
        Inl (New ''invalid DSA public key'')"
    "fst (Verifier_Verify sampleLib sampleVerifier mistypedPublicKey (Bytes [1, 2, 1])) =
        Inl TypeAssertionPanic"
    by blast+
  from a b c priv d e f pub show ?thesis by blast
qed

end
